theory Spec2Isabelle
  imports Main "HOL-Library.AList"
begin

section \<open>The calculator of \<^verbatim>\<open>calculator.py\<close>\<close>

text \<open>
  The module has one function with content, \<^verbatim>\<open>evaluate\<close>, and a Qt widget around it.
  \<^verbatim>\<open>evaluate\<close> calls three things of the Python runtime: \<^verbatim>\<open>compile\<close>, the attribute
  \<^verbatim>\<open>co_names\<close> of the code object, and \<^verbatim>\<open>eval\<close>; and it reads the class attribute
  \<^verbatim>\<open>Calculator.ALLOWED_NAMES\<close>, a dictionary built from \<^verbatim>\<open>math.__dict__\<close>.

  The runtime is modelled for a fragment of Python's expression language (CPython 3.8 or
  later): decimal integer literals, plain string literals, names, unary and binary
  \<^verbatim>\<open>+ - * /\<close>, calls, parentheses, the assignment expression \<^verbatim>\<open>(NAME := expr)\<close> and the
  parameterless \<^verbatim>\<open>lambda: expr\<close>. A string or a computation that leaves the fragment is
  answered by \<open>Unsupported\<close> / \<open>Unmodelled\<close>, never by a guess. The interpreter has
  limits (nesting depth of the parser, recursion depth of the compiler, digits of an
  integer literal, memory); a source of more than 64 characters is left out of the
  fragment, which keeps every modelled source far below each of them.
\<close>

subsection \<open>Python values, exceptions and results\<close>

datatype unaryop = UAdd | USub

datatype operator = Add | Sub | Mult | Div

text \<open>The abstract syntax tree of an expression, with the node names of Python's \<^verbatim>\<open>ast\<close>.\<close>

datatype expr =
    Num int
  | Str string
  | Name string
  | UnaryOp unaryop expr
  | BinOp expr operator expr
  | Call expr "expr list"
  | NamedExpr string expr
  | Lambda expr

text \<open>
  \<open>VFloat n\<close> is the float whose value is the integer \<open>n\<close>, for \<open>0 < \<bar>n\<bar> \<le> 2^53\<close> (every such
  integer is a double); no other float is represented. \<open>VBuiltin f\<close> is the built-in
  function \<^verbatim>\<open>math.f\<close>, \<open>VFunction b\<close> the function object of \<^verbatim>\<open>lambda: b\<close>, \<open>VObject d\<close> an
  object the model does not look into (the float constants of \<^verbatim>\<open>math\<close>, the module's loader
  and spec), \<open>VException k m\<close> an exception instance.
\<close>

datatype exc_class = SyntaxError | NameError | ZeroDivisionError | ValueError | TypeError

datatype pyval =
    VInt int
  | VFloat int
  | VStr string
  | VBuiltin string
  | VFunction expr
  | VDict "(string \<times> pyval) list"
  | VObject string
  | VException exc_class string

type_synonym pydict = "(string \<times> pyval) list"

datatype exn = Exc exc_class string

text \<open>
  What a call does: it returns a value, or an exception propagates out of it, or the
  computation is outside the modelled fragment.
\<close>

datatype 'a result = Return 'a | Raise exn | Unmodelled

subsection \<open>\<^verbatim>\<open>compile(expression, "<string>", "eval")\<close>: tokens\<close>

datatype token =
    NUMBER int | STRING string | NAME string | LAMBDA
  | PLUS | MINUS | STAR | SLASH | LPAR | RPAR | COMMA | COLON | COLONEQUAL

definition is_digit :: "char \<Rightarrow> bool" where
  "is_digit c = (c \<in> set ''0123456789'')"

definition is_name_start :: "char \<Rightarrow> bool" where
  "is_name_start c =
     (c \<in> set ''abcdefghijklmnopqrstuvwxyzABCDEFGHIJKLMNOPQRSTUVWXYZ_'')"

definition is_name_char :: "char \<Rightarrow> bool" where
  "is_name_char c = (is_name_start c \<or> is_digit c)"

definition is_plain_char :: "char \<Rightarrow> bool" where
  "is_plain_char c = (is_name_char c \<or> c = CHR '' '')"

text \<open>The keywords of Python other than \<^verbatim>\<open>lambda\<close>: none of them is in the fragment.\<close>

definition other_keywords :: "string list" where
  "other_keywords =
     [''False'', ''None'', ''True'', ''and'', ''as'', ''assert'', ''async'', ''await'',
      ''break'', ''class'', ''continue'', ''def'', ''del'', ''elif'', ''else'', ''except'',
      ''finally'', ''for'', ''from'', ''global'', ''if'', ''import'', ''in'', ''is'',
      ''nonlocal'', ''not'', ''or'', ''pass'', ''raise'', ''return'', ''try'', ''while'',
      ''with'', ''yield'']"

fun digit_value :: "char \<Rightarrow> int" where
  "digit_value c = int (of_char c) - 48"

definition decimal_value :: "string \<Rightarrow> int" where
  "decimal_value ds = foldl (\<lambda>acc c. 10 * acc + digit_value c) 0 ds"

text \<open>
  The tokenizer is a state machine over the characters: \<open>Idle\<close> between tokens, \<open>InNumber\<close>
  and \<open>InName\<close> inside one, \<open>InString\<close> inside a \<^verbatim>\<open>'...'\<close> literal, and one state after each of
  \<^verbatim>\<open>:\<close>, \<^verbatim>\<open>*\<close> and \<^verbatim>\<open>/\<close>, which may start a two-character operator.
\<close>

datatype lexstate =
    Idle | InNumber string | InName string | InString string | ClosedString string
  | SeenColon | SeenStar | SeenSlash

text \<open>
  The token a state holds when the next character does not continue it. \<open>None\<close>: outside
  the fragment (a literal such as \<^verbatim>\<open>012\<close>, a keyword, an unterminated string, and the name
  \<^verbatim>\<open>__debug__\<close>, which the compiler replaces by a constant instead of a name instruction).
\<close>

fun pending :: "lexstate \<Rightarrow> token list option" where
  "pending Idle = Some []"
| "pending (InNumber ds) =
     (if length ds > 1 \<and> hd ds = CHR ''0'' then None else Some [NUMBER (decimal_value ds)])"
| "pending (InName s) =
     (if s = ''lambda'' then Some [LAMBDA]
      else if s \<in> set other_keywords \<or> s = ''__debug__'' then None
      else Some [NAME s])"
| "pending (InString s) = None"
| "pending (ClosedString s) = Some [STRING s]"
| "pending SeenColon = Some [COLON]"
| "pending SeenStar = Some [STAR]"
| "pending SeenSlash = Some [SLASH]"

text \<open>The state a character starts from \<open>Idle\<close>, with the token it already completes.\<close>

definition start_char :: "char \<Rightarrow> (token list \<times> lexstate) option" where
  "start_char c =
     (if c = CHR '' '' then Some ([], Idle)
      else if is_digit c then Some ([], InNumber [c])
      else if is_name_start c then Some ([], InName [c])
      else if c = CHR 0x27 then Some ([], InString [])
      else if c = CHR ''+'' then Some ([PLUS], Idle)
      else if c = CHR ''-'' then Some ([MINUS], Idle)
      else if c = CHR ''('' then Some ([LPAR], Idle)
      else if c = CHR '')'' then Some ([RPAR], Idle)
      else if c = CHR '','' then Some ([COMMA], Idle)
      else if c = CHR ''*'' then Some ([], SeenStar)
      else if c = CHR ''/'' then Some ([], SeenSlash)
      else if c = CHR '':'' then Some ([], SeenColon)
      else None)"

text \<open>
  Whether a character continues the token of the state (\<open>Some (Some st)\<close>), ends it
  (\<open>Some None\<close>), or makes something outside the fragment (\<open>None\<close>): a number running into
  a letter, a dot or a quote (\<^verbatim>\<open>1e3\<close>, \<^verbatim>\<open>1.5\<close>, \<^verbatim>\<open>1_0\<close>), a string prefix (\<^verbatim>\<open>r'..'\<close>), two
  adjacent string literals, an escape or another character inside a string, \<^verbatim>\<open>**\<close>, \<^verbatim>\<open>//\<close>.
\<close>

fun continue :: "lexstate \<Rightarrow> char \<Rightarrow> lexstate option option" where
  "continue Idle c = Some None"
| "continue (InNumber ds) c =
     (if is_digit c then Some (Some (InNumber (ds @ [c])))
      else if is_name_start c \<or> c = CHR ''.'' \<or> c = CHR 0x27 then None
      else Some None)"
| "continue (InName s) c =
     (if is_name_char c then Some (Some (InName (s @ [c])))
      else if c = CHR 0x27 then None
      else Some None)"
| "continue (InString s) c =
     (if c = CHR 0x27 then Some (Some (ClosedString s))
      else if is_plain_char c then Some (Some (InString (s @ [c])))
      else None)"
| "continue (ClosedString s) c =
     (if c = CHR 0x27 \<or> is_name_char c then None else Some None)"
| "continue SeenColon c = (if c = CHR ''='' then Some (Some Idle) else Some None)"
| "continue SeenStar c = (if c = CHR ''*'' then None else Some None)"
| "continue SeenSlash c = (if c = CHR ''/'' then None else Some None)"

fun lex :: "lexstate \<Rightarrow> string \<Rightarrow> token list option" where
  "lex st [] = pending st"
| "lex st (c # cs) =
     (case continue st c of
        None \<Rightarrow> None
      | Some (Some st') \<Rightarrow>
          (if st = SeenColon then map_option ((#) COLONEQUAL) (lex st' cs) else lex st' cs)
      | Some None \<Rightarrow>
          (case (pending st, start_char c) of
             (Some ts, Some (ts', st')) \<Rightarrow> map_option ((@) (ts @ ts')) (lex st' cs)
           | _ \<Rightarrow> None))"

text \<open>
  \<open>None\<close> for a string the fragment does not cover. Leading blanks are an indentation
  to Python and are left out of the fragment; so is every character not named above
  (tabs, newlines, NUL, brackets, comparison operators, the dot).
\<close>

definition tokenize :: "string \<Rightarrow> token list option" where
  "tokenize s = (case s of c # _ \<Rightarrow> (if c = CHR '' '' then None else lex Idle s) | [] \<Rightarrow> lex Idle s)"

subsection \<open>\<^verbatim>\<open>compile\<close>: the parser\<close>

text \<open>
  The grammar, a part of Python's for \<^verbatim>\<open>eval\<close> input:
  \<^verbatim>\<open>
  expression: 'lambda' ':' expression | sum
  sum:        sum ('+' | '-') term | term
  term:       term ('*' | '/') factor | factor
  factor:     ('+' | '-') factor | primary
  primary:    primary '(' [arguments] ')' | atom
  arguments:  expression (',' expression)* [',']
  atom:       NUMBER | STRING | NAME | '(' NAME ':=' expression ')' | '(' expression ')'
  \<close>
  A parse returns the tree and the tokens left. It answers \<open>SyntaxErr\<close> only where the
  input ends while an operand or a closing parenthesis is still due, which no Python
  expression does; whatever else does not fit the grammar above is \<open>Unsupported\<close>, since
  Python's full grammar may accept it (tuples, starred and keyword arguments, lambdas with
  parameters). The number each parser takes bounds the depth of its descent and the
  length of its loop.
\<close>

datatype 'a parse = Parsed 'a "token list" | SyntaxErr | Unsupported

fun parse_map :: "('a \<Rightarrow> 'b) \<Rightarrow> 'a parse \<Rightarrow> 'b parse" where
  "parse_map f (Parsed a ts) = Parsed (f a) ts"
| "parse_map f SyntaxErr = SyntaxErr"
| "parse_map f Unsupported = Unsupported"

text \<open>The atom a single token is.\<close>

fun literal_of :: "token \<Rightarrow> expr option" where
  "literal_of (NUMBER k) = Some (Num k)"
| "literal_of (STRING s) = Some (Str s)"
| "literal_of (NAME x) = Some (Name x)"
| "literal_of t = None"

text \<open>The target of an assignment expression, when the tokens start with \<^verbatim>\<open>NAME :=\<close>.\<close>

fun walrus_target :: "token list \<Rightarrow> (string \<times> token list) option" where
  "walrus_target (NAME x # t # r) = (if t = COLONEQUAL then Some (x, r) else None)"
| "walrus_target ts = None"

text \<open>The closing parenthesis due after a parenthesised expression.\<close>

fun closing :: "expr parse \<Rightarrow> expr parse" where
  "closing (Parsed e []) = SyntaxErr"
| "closing (Parsed e (t # r)) = (if t = RPAR then Parsed e r else Unsupported)"
| "closing SyntaxErr = SyntaxErr"
| "closing Unsupported = Unsupported"

definition starts_with :: "token list \<Rightarrow> token list \<Rightarrow> bool" where
  "starts_with p ts = (take (length p) ts = p)"

text \<open>
  Each level of the grammar takes the parser of \<^verbatim>\<open>expression\<close> as its first argument;
  \<open>parse_expression\<close> ties the knot.
\<close>

definition parse_atom :: "(token list \<Rightarrow> expr parse) \<Rightarrow> token list \<Rightarrow> expr parse" where
  "parse_atom expression ts =
     (case ts of
        [] \<Rightarrow> SyntaxErr
      | t # r \<Rightarrow>
          (case literal_of t of
             Some e \<Rightarrow> Parsed e r
           | None \<Rightarrow>
               (if t = LPAR then
                  (case walrus_target r of
                     Some (x, r') \<Rightarrow> closing (parse_map (NamedExpr x) (expression r'))
                   | None \<Rightarrow> closing (expression r))
                else Unsupported)))"

fun parse_arguments :: "(token list \<Rightarrow> expr parse) \<Rightarrow> nat \<Rightarrow> token list \<Rightarrow> (expr list) parse"
where
  "parse_arguments expression 0 ts = Unsupported"
| "parse_arguments expression (Suc n) ts =
     (case expression ts of
        SyntaxErr \<Rightarrow> SyntaxErr
      | Unsupported \<Rightarrow> Unsupported
      | Parsed a r \<Rightarrow>
          (if r = [] then SyntaxErr
           else if starts_with [RPAR] r then Parsed [a] (drop 1 r)
           else if starts_with [COMMA, RPAR] r then Parsed [a] (drop 2 r)
           else if starts_with [COMMA] r
           then parse_map ((#) a) (parse_arguments expression n (drop 1 r))
           else Unsupported))"

fun trailers :: "(token list \<Rightarrow> expr parse) \<Rightarrow> nat \<Rightarrow> expr parse \<Rightarrow> expr parse" where
  "trailers expression 0 p = Unsupported"
| "trailers expression (Suc n) SyntaxErr = SyntaxErr"
| "trailers expression (Suc n) Unsupported = Unsupported"
| "trailers expression (Suc n) (Parsed f ts) =
     (if starts_with [LPAR, RPAR] ts then trailers expression n (Parsed (Call f []) (drop 2 ts))
      else if starts_with [LPAR] ts
      then trailers expression n
             (parse_map (\<lambda>args. Call f args) (parse_arguments expression n (drop 1 ts)))
      else Parsed f ts)"

definition parse_primary :: "(token list \<Rightarrow> expr parse) \<Rightarrow> nat \<Rightarrow> token list \<Rightarrow> expr parse"
where
  "parse_primary expression n ts = trailers expression n (parse_atom expression ts)"

fun parse_factor :: "(token list \<Rightarrow> expr parse) \<Rightarrow> nat \<Rightarrow> token list \<Rightarrow> expr parse" where
  "parse_factor expression 0 ts = Unsupported"
| "parse_factor expression (Suc n) ts =
     (if starts_with [PLUS] ts
      then parse_map (UnaryOp UAdd) (parse_factor expression n (drop 1 ts))
      else if starts_with [MINUS] ts
      then parse_map (UnaryOp USub) (parse_factor expression n (drop 1 ts))
      else parse_primary expression n ts)"

fun term_rest :: "(token list \<Rightarrow> expr parse) \<Rightarrow> nat \<Rightarrow> expr parse \<Rightarrow> expr parse" where
  "term_rest expression 0 p = Unsupported"
| "term_rest expression (Suc n) SyntaxErr = SyntaxErr"
| "term_rest expression (Suc n) Unsupported = Unsupported"
| "term_rest expression (Suc n) (Parsed l ts) =
     (if starts_with [STAR] ts
      then term_rest expression n
             (parse_map (\<lambda>x. BinOp l Mult x) (parse_factor expression n (drop 1 ts)))
      else if starts_with [SLASH] ts
      then term_rest expression n
             (parse_map (\<lambda>x. BinOp l Div x) (parse_factor expression n (drop 1 ts)))
      else Parsed l ts)"

definition parse_term :: "(token list \<Rightarrow> expr parse) \<Rightarrow> nat \<Rightarrow> token list \<Rightarrow> expr parse"
where
  "parse_term expression n ts = term_rest expression n (parse_factor expression n ts)"

fun sum_rest :: "(token list \<Rightarrow> expr parse) \<Rightarrow> nat \<Rightarrow> expr parse \<Rightarrow> expr parse" where
  "sum_rest expression 0 p = Unsupported"
| "sum_rest expression (Suc n) SyntaxErr = SyntaxErr"
| "sum_rest expression (Suc n) Unsupported = Unsupported"
| "sum_rest expression (Suc n) (Parsed l ts) =
     (if starts_with [PLUS] ts
      then sum_rest expression n
             (parse_map (\<lambda>x. BinOp l Add x) (parse_term expression n (drop 1 ts)))
      else if starts_with [MINUS] ts
      then sum_rest expression n
             (parse_map (\<lambda>x. BinOp l Sub x) (parse_term expression n (drop 1 ts)))
      else Parsed l ts)"

definition parse_sum :: "(token list \<Rightarrow> expr parse) \<Rightarrow> nat \<Rightarrow> token list \<Rightarrow> expr parse"
where
  "parse_sum expression n ts = sum_rest expression n (parse_term expression n ts)"

fun parse_expression :: "nat \<Rightarrow> token list \<Rightarrow> expr parse" where
  "parse_expression 0 ts = Unsupported"
| "parse_expression (Suc n) ts =
     (if starts_with [LAMBDA, COLON] ts then parse_map Lambda (parse_expression n (drop 2 ts))
      else if starts_with [LAMBDA] ts then Unsupported
      else parse_sum (parse_expression n) n ts)"

text \<open>
  The whole input must be one expression. Every nesting and every turn of a loop
  consumes a token, so a bound a little above the number of tokens is never reached.
\<close>

definition parse_eval_input :: "token list \<Rightarrow> expr parse" where
  "parse_eval_input ts =
     (case parse_expression (length ts + 4) ts of
        Parsed e [] \<Rightarrow> Parsed e []
      | Parsed e (t # r) \<Rightarrow> Unsupported
      | SyntaxErr \<Rightarrow> SyntaxErr
      | Unsupported \<Rightarrow> Unsupported)"

subsection \<open>\<^verbatim>\<open>compile\<close>: the code object\<close>

text \<open>
  \<^verbatim>\<open>co_names\<close> lists the names the code object's own instructions use, each once, in the
  order the compiler meets them: operands left to right, the callee before its arguments,
  the value of an assignment expression before its target. The body of a lambda is a code
  object of its own, kept among the constants; its names are not in the \<^verbatim>\<open>co_names\<close> of
  the enclosing code.
\<close>

fun names_of :: "expr \<Rightarrow> string list" where
  "names_of (Num k) = []"
| "names_of (Str s) = []"
| "names_of (Name x) = [x]"
| "names_of (UnaryOp u e) = names_of e"
| "names_of (BinOp l b r) = names_of l @ names_of r"
| "names_of (Call f args) = names_of f @ concat (map names_of args)"
| "names_of (NamedExpr x v) = names_of v @ [x]"
| "names_of (Lambda b) = []"

fun first_occurrences :: "string list \<Rightarrow> string list \<Rightarrow> string list" where
  "first_occurrences seen [] = seen"
| "first_occurrences seen (x # xs) =
     first_occurrences (if x \<in> set seen then seen else seen @ [x]) xs"

record code =
  co_names :: "string list"
  co_code :: expr

datatype compiled = Compiled code | CompileSyntaxError string | CompileUnsupported

text \<open>
  The text of the \<^verbatim>\<open>SyntaxError\<close> differs between Python versions and between errors;
  \<open>invalid syntax\<close> stands for it, and no property below says what the text is.
  A source longer than \<open>max_source_length\<close> gets no answer: there CPython may refuse an
  expression of this grammar (more than 200 nested parentheses, an integer literal of more
  than 4300 digits) or run out of stack or memory while compiling it.
\<close>

definition max_source_length :: nat where
  "max_source_length = 64"

definition py_compile :: "string \<Rightarrow> compiled" where
  "py_compile source =
     (if length source > max_source_length then CompileUnsupported
      else
        (case tokenize source of
           None \<Rightarrow> CompileUnsupported
         | Some ts \<Rightarrow>
             (case parse_eval_input ts of
                Parsed e r \<Rightarrow>
                  Compiled \<lparr>co_names = first_occurrences [] (names_of e), co_code = e\<rparr>
              | SyntaxErr \<Rightarrow> CompileSyntaxError ''invalid syntax''
              | Unsupported \<Rightarrow> CompileUnsupported)))"

subsection \<open>The module \<^verbatim>\<open>math\<close> and \<^verbatim>\<open>Calculator.ALLOWED_NAMES\<close>\<close>

text \<open>
  A dictionary is an association list with distinct keys, in insertion order.
  \<open>math_dict\<close> is \<^verbatim>\<open>math.__dict__\<close> as CPython 3.11 has it after the import. A function is
  the built-in of its name; the constants \<^verbatim>\<open>pi\<close>, \<^verbatim>\<open>e\<close>, \<^verbatim>\<open>tau\<close>, \<^verbatim>\<open>inf\<close>, \<^verbatim>\<open>nan\<close> are floats
  the model does not look into.
\<close>

definition math_functions :: "string list" where
  "math_functions =
     [''acos'', ''acosh'', ''asin'', ''asinh'', ''atan'', ''atan2'', ''atanh'', ''cbrt'',
      ''ceil'', ''copysign'', ''cos'', ''cosh'', ''degrees'', ''dist'', ''erf'', ''erfc'',
      ''exp'', ''exp2'', ''expm1'', ''fabs'', ''factorial'', ''floor'', ''fmod'', ''frexp'',
      ''fsum'', ''gamma'', ''gcd'', ''hypot'', ''isclose'', ''isfinite'', ''isinf'', ''isnan'',
      ''isqrt'', ''lcm'', ''ldexp'', ''lgamma'', ''log'', ''log1p'', ''log10'', ''log2'',
      ''modf'', ''pow'', ''radians'', ''remainder'', ''sin'', ''sinh'', ''sqrt'', ''tan'',
      ''tanh'', ''trunc'', ''prod'', ''perm'', ''comb'', ''nextafter'', ''ulp'']"

definition math_constants :: "string list" where
  "math_constants = [''pi'', ''e'', ''tau'', ''inf'', ''nan'']"

definition math_dict :: pydict where
  "math_dict =
     [(''__name__'', VStr ''math''),
      (''__doc__'',
       VStr (''This module provides access to the mathematical functions'' @ [CHR 0x0A] @
             ''defined by the C standard.'')),
      (''__package__'', VStr []),
      (''__loader__'', VObject ''the loader of math''),
      (''__spec__'', VObject ''the spec of math'')]
     @ map (\<lambda>f. (f, VBuiltin f)) math_functions
     @ map (\<lambda>c. (c, VObject (''math.'' @ c))) math_constants"

definition startswith :: "string \<Rightarrow> string \<Rightarrow> bool" where
  "startswith s p = (take (length p) s = p)"

text \<open>
  The class body: \<^verbatim>\<open>{k: v for k, v in math.__dict__.items() if not k.startswith("__")}\<close>,
  for any module dictionary.
\<close>

definition ALLOWED_NAMES_init :: "pydict \<Rightarrow> pydict" where
  "ALLOWED_NAMES_init module_dict = filter (\<lambda>(k, v). \<not> startswith k ''__'') module_dict"

text \<open>\<^verbatim>\<open>name in d\<close>\<close>

definition contains :: "pydict \<Rightarrow> string \<Rightarrow> bool" where
  "contains d name = (name \<in> set (map fst d))"

subsection \<open>The state \<^verbatim>\<open>evaluate\<close> works on\<close>

text \<open>
  \<open>ALLOWED_NAMES\<close> is the dictionary the class attribute refers to: \<^verbatim>\<open>evaluate\<close> hands this
  very object to \<^verbatim>\<open>eval\<close> as the local namespace. \<open>stdout\<close> has one entry for each \<^verbatim>\<open>print\<close>.
  \<open>trace\<close> is not state of the program: it records that \<^verbatim>\<open>eval\<close> was entered and every
  name instruction the interpreter executed, so that theorems can speak about them.
\<close>

datatype event = EVAL | LOAD_NAME string | LOAD_GLOBAL string | STORE_NAME string

record world =
  ALLOWED_NAMES :: pydict
  stdout :: "string list"
  trace :: "event list"

definition record_event :: "event \<Rightarrow> world \<Rightarrow> world" where
  "record_event ev w = w\<lparr>trace := trace w @ [ev]\<rparr>"

definition initial_world :: world where
  "initial_world = \<lparr>ALLOWED_NAMES = ALLOWED_NAMES_init math_dict, stdout = [], trace = []\<rparr>"

subsection \<open>\<^verbatim>\<open>eval(code, globals, locals)\<close>\<close>

definition quoted :: "string \<Rightarrow> string" where
  "quoted s = [CHR 0x27] @ s @ [CHR 0x27]"

text \<open>
  \<^verbatim>\<open>LOAD_GLOBAL\<close>, the name instruction of a function body: the globals, then the builtins,
  which are the dictionary under \<^verbatim>\<open>__builtins__\<close> in the globals.
\<close>

definition load_global :: "pydict \<Rightarrow> string \<Rightarrow> pyval result" where
  "load_global globals x =
     (case map_of globals x of
        Some v \<Rightarrow> Return v
      | None \<Rightarrow>
          (case map_of globals ''__builtins__'' of
             Some (VDict builtins) \<Rightarrow>
               (case map_of builtins x of
                  Some v \<Rightarrow> Return v
                | None \<Rightarrow> Raise (Exc NameError (''name '' @ quoted x @ '' is not defined'')))
           | _ \<Rightarrow> Unmodelled))"

text \<open>\<^verbatim>\<open>LOAD_NAME\<close>, the name instruction of the expression itself: the locals first.\<close>

definition load_name :: "pydict \<Rightarrow> pydict \<Rightarrow> string \<Rightarrow> pyval result" where
  "load_name locals globals x =
     (case map_of locals x of Some v \<Rightarrow> Return v | None \<Rightarrow> load_global globals x)"

text \<open>
  The operators. Integers are unbounded. \<^verbatim>\<open>/\<close> on integers raises on a zero divisor and
  otherwise returns the correctly rounded quotient, a float: the model gives it when the
  quotient is a nonzero integer of at most 53 bits, which is then the float itself.
  Operands of other types are outside the fragment.
\<close>

definition float_of_exact :: "int \<Rightarrow> pyval result" where
  "float_of_exact q = (if q \<noteq> 0 \<and> \<bar>q\<bar> \<le> 2 ^ 53 then Return (VFloat q) else Unmodelled)"

fun binary_op :: "operator \<Rightarrow> pyval \<Rightarrow> pyval \<Rightarrow> pyval result" where
  "binary_op Add (VInt a) (VInt b) = Return (VInt (a + b))"
| "binary_op Sub (VInt a) (VInt b) = Return (VInt (a - b))"
| "binary_op Mult (VInt a) (VInt b) = Return (VInt (a * b))"
| "binary_op Div (VInt a) (VInt b) =
     (if b = 0 then Raise (Exc ZeroDivisionError ''division by zero'')
      else if b dvd a then float_of_exact (a div b)
      else Unmodelled)"
| "binary_op b x y = Unmodelled"

fun unary_op :: "unaryop \<Rightarrow> pyval \<Rightarrow> pyval result" where
  "unary_op UAdd (VInt a) = Return (VInt a)"
| "unary_op USub (VInt a) = Return (VInt (- a))"
| "unary_op u x = Unmodelled"

text \<open>
  The built-ins of \<^verbatim>\<open>math\<close> the model knows: \<^verbatim>\<open>gcd\<close> of two integers, and \<^verbatim>\<open>sqrt\<close> of an
  integer of at most 53 bits that is negative (a domain error) or a positive perfect
  square (the root, exactly).
\<close>

definition exact_root :: "int \<Rightarrow> int option" where
  "exact_root n = find (\<lambda>k. k * k = n) (map int [0..<Suc (nat n)])"

fun call_builtin :: "string \<Rightarrow> pyval list \<Rightarrow> pyval result" where
  "call_builtin f [VInt a, VInt b] =
     (if f = ''gcd'' then Return (VInt (gcd a b)) else Unmodelled)"
| "call_builtin f [VInt n] =
     (if f = ''sqrt'' \<and> \<bar>n\<bar> \<le> 2 ^ 53 then
        (if n < 0 then Raise (Exc ValueError ''math domain error'')
         else case exact_root n of Some k \<Rightarrow> float_of_exact k | None \<Rightarrow> Unmodelled)
      else Unmodelled)"
| "call_builtin f args = Unmodelled"

text \<open>
  The body of a lambda runs in a scope of its own: its names are globals. Calls and
  assignment expressions inside a lambda body are outside the fragment.
\<close>

fun eval_function_body :: "pydict \<Rightarrow> expr \<Rightarrow> event list \<Rightarrow> pyval result \<times> event list" where
  "eval_function_body globals (Num k) t = (Return (VInt k), t)"
| "eval_function_body globals (Str s) t = (Return (VStr s), t)"
| "eval_function_body globals (Name x) t = (load_global globals x, t @ [LOAD_GLOBAL x])"
| "eval_function_body globals (Lambda b) t = (Return (VFunction b), t)"
| "eval_function_body globals (UnaryOp u e) t =
     (case eval_function_body globals e t of
        (Return v, t1) \<Rightarrow> (unary_op u v, t1)
      | other \<Rightarrow> other)"
| "eval_function_body globals (BinOp l b r) t =
     (case eval_function_body globals l t of
        (Return x, t1) \<Rightarrow>
          (case eval_function_body globals r t1 of
             (Return y, t2) \<Rightarrow> (binary_op b x y, t2)
           | other \<Rightarrow> other)
      | other \<Rightarrow> other)"
| "eval_function_body globals (Call f args) t = (Unmodelled, t)"
| "eval_function_body globals (NamedExpr x v) t = (Unmodelled, t)"

text \<open>Calling a value with the arguments already evaluated.\<close>

fun call_function :: "pydict \<Rightarrow> pyval \<Rightarrow> pyval list \<Rightarrow> world \<Rightarrow> pyval result \<times> world" where
  "call_function globals (VBuiltin f) args w = (call_builtin f args, w)"
| "call_function globals (VFunction b) args w =
     (if args = [] then
        (case eval_function_body globals b (trace w) of (r, t) \<Rightarrow> (r, w\<lparr>trace := t\<rparr>))
      else (Unmodelled, w))"
| "call_function globals (VInt n) args w =
     (Raise (Exc TypeError (quoted ''int'' @ '' object is not callable'')), w)"
| "call_function globals (VFloat n) args w =
     (Raise (Exc TypeError (quoted ''float'' @ '' object is not callable'')), w)"
| "call_function globals (VStr s) args w =
     (Raise (Exc TypeError (quoted ''str'' @ '' object is not callable'')), w)"
| "call_function globals (VDict d) args w =
     (Raise (Exc TypeError (quoted ''dict'' @ '' object is not callable'')), w)"
| "call_function globals v args w = (Unmodelled, w)"

text \<open>
  The expression itself. Its local namespace is the dictionary \<open>ALLOWED_NAMES\<close> of the
  world: a name is loaded from it, and the assignment expression stores into it
  (\<^verbatim>\<open>STORE_NAME\<close>), replacing the value of a key that is there and appending a new key.
  Operands are evaluated left to right, the callee before the arguments; an exception
  ends the evaluation where it is raised.
\<close>

fun eval_expr :: "pydict \<Rightarrow> expr \<Rightarrow> world \<Rightarrow> pyval result \<times> world"
  and eval_args :: "pydict \<Rightarrow> expr list \<Rightarrow> world \<Rightarrow> (pyval list) result \<times> world"
where
  "eval_expr globals (Num k) w = (Return (VInt k), w)"
| "eval_expr globals (Str s) w = (Return (VStr s), w)"
| "eval_expr globals (Name x) w =
     (load_name (ALLOWED_NAMES w) globals x, record_event (LOAD_NAME x) w)"
| "eval_expr globals (Lambda b) w = (Return (VFunction b), w)"
| "eval_expr globals (UnaryOp u e) w =
     (case eval_expr globals e w of
        (Return v, w1) \<Rightarrow> (unary_op u v, w1)
      | other \<Rightarrow> other)"
| "eval_expr globals (BinOp l b r) w =
     (case eval_expr globals l w of
        (Return x, w1) \<Rightarrow>
          (case eval_expr globals r w1 of
             (Return y, w2) \<Rightarrow> (binary_op b x y, w2)
           | other \<Rightarrow> other)
      | other \<Rightarrow> other)"
| "eval_expr globals (NamedExpr x v) w =
     (case eval_expr globals v w of
        (Return val, w1) \<Rightarrow>
          (Return val,
           record_event (STORE_NAME x)
             (w1\<lparr>ALLOWED_NAMES := AList.update x val (ALLOWED_NAMES w1)\<rparr>))
      | other \<Rightarrow> other)"
| "eval_expr globals (Call f args) w =
     (case eval_expr globals f w of
        (Return fv, w1) \<Rightarrow>
          (case eval_args globals args w1 of
             (Return vs, w2) \<Rightarrow> call_function globals fv vs w2
           | (Raise e, w2) \<Rightarrow> (Raise e, w2)
           | (Unmodelled, w2) \<Rightarrow> (Unmodelled, w2))
      | other \<Rightarrow> other)"
| "eval_args globals [] w = (Return [], w)"
| "eval_args globals (a # as) w =
     (case eval_expr globals a w of
        (Return v, w1) \<Rightarrow>
          (case eval_args globals as w1 of
             (Return vs, w2) \<Rightarrow> (Return (v # vs), w2)
           | other \<Rightarrow> other)
      | (Raise e, w1) \<Rightarrow> (Raise e, w1)
      | (Unmodelled, w1) \<Rightarrow> (Unmodelled, w1))"

definition py_eval :: "code \<Rightarrow> pydict \<Rightarrow> world \<Rightarrow> pyval result \<times> world" where
  "py_eval c globals w = eval_expr globals (co_code c) (record_event EVAL w)"

subsection \<open>\<^verbatim>\<open>evaluate\<close>\<close>

text \<open>
  The loop \<^verbatim>\<open>for name in code.co_names\<close>: the exception of the first name that is not a
  key of \<open>ALLOWED_NAMES\<close>, if there is one.
\<close>

fun validate_names :: "pydict \<Rightarrow> string list \<Rightarrow> exn option" where
  "validate_names allowed [] = None"
| "validate_names allowed (name # names) =
     (if \<not> contains allowed name
      then Some (Exc NameError (''The use of '' @ quoted name @ '' is not allowed''))
      else validate_names allowed names)"

definition syntax_error_message :: "string \<Rightarrow> string" where
  "syntax_error_message e =
     ''The given function is not syntactically correct! Error:'' @ [CHR 0x0A] @ e"

text \<open>
  \<^verbatim>\<open>evaluate(expression)\<close>, from the world before the call to the result and the world
  after it. The \<^verbatim>\<open>try\<close> covers \<^verbatim>\<open>compile\<close> alone and catches \<^verbatim>\<open>SyntaxError\<close>; the \<^verbatim>\<open>raise\<close> of
  the loop and whatever \<^verbatim>\<open>eval\<close> raises leave the function.
\<close>

definition evaluate :: "world \<Rightarrow> string \<Rightarrow> pyval result \<times> world" where
  "evaluate w expression =
     (case py_compile expression of
        CompileSyntaxError e \<Rightarrow>
          (Return (VStr ''ERROR''), w\<lparr>stdout := stdout w @ [syntax_error_message e]\<rparr>)
      | CompileUnsupported \<Rightarrow> (Unmodelled, w)
      | Compiled c \<Rightarrow>
          (case validate_names (ALLOWED_NAMES w) (co_names c) of
             Some exn \<Rightarrow> (Raise exn, w)
           | None \<Rightarrow> py_eval c [(''__builtins__'', VDict [])] w))"

subsection \<open>The widget: the input buffer and \<^verbatim>\<open>_remove_last_digit\<close>\<close>

text \<open>
  What the methods below use of a \<^verbatim>\<open>Calculator\<close>: the list \<^verbatim>\<open>__current_input\<close> of the key
  texts entered so far, the text shown by \<^verbatim>\<open>ui.input_field\<close>, and the lines printed.
\<close>

record calculator =
  current_input :: "string list"
  input_field :: string
  printed :: "string list"

text \<open>
  \<^verbatim>\<open>str.isdigit\<close> on ASCII text, which is what the keys of the calculator produce: not
  empty, and every character a decimal digit.
\<close>

definition isdigit :: "string \<Rightarrow> bool" where
  "isdigit s = (s \<noteq> [] \<and> list_all is_digit s)"

text \<open>\<^verbatim>\<open>list.index\<close>: the position of the first element equal to \<open>x\<close>; \<open>None\<close> is \<^verbatim>\<open>ValueError\<close>.\<close>

fun index :: "'a list \<Rightarrow> 'a \<Rightarrow> nat option" where
  "index [] x = None"
| "index (y # ys) x = (if y = x then Some 0 else map_option Suc (index ys x))"

definition update_input_field :: "calculator \<Rightarrow> string \<Rightarrow> calculator" where
  "update_input_field c new_input =
     c\<lparr>current_input := current_input c @ [new_input],
       input_field := concat (current_input c @ [new_input])\<rparr>"

text \<open>
  The loop \<^verbatim>\<open>for element in reversed(self.__current_input)\<close>, over the elements still to
  visit. At the first digit it looks the element up with \<^verbatim>\<open>index\<close>, cuts the list there,
  shows the rest and breaks; a \<^verbatim>\<open>ValueError\<close> of \<^verbatim>\<open>index\<close> is caught and reported.
\<close>

fun remove_last_digit_loop :: "calculator \<Rightarrow> string list \<Rightarrow> calculator" where
  "remove_last_digit_loop c [] = c"
| "remove_last_digit_loop c (element # rest) =
     (if isdigit element then
        (case index (current_input c) element of
           Some index_last_digit \<Rightarrow>
             c\<lparr>current_input := take index_last_digit (current_input c),
               input_field := concat (take index_last_digit (current_input c))\<rparr>
         | None \<Rightarrow>
             c\<lparr>printed := printed c @
                 [''The last digit could not be removed from the current input :('']\<rparr>)
      else remove_last_digit_loop c rest)"

definition remove_last_digit :: "calculator \<Rightarrow> calculator" where
  "remove_last_digit c = remove_last_digit_loop c (rev (current_input c))"

text \<open>
  The decorator \<^verbatim>\<open>log_other_interaction\<close>: the wrapper prints which way the button was
  reached and then calls the method. \<open>event_text\<close> is the text of the button, which comes
  from the \<^verbatim>\<open>.ui\<close> file.
\<close>

definition log_other_interaction ::
  "(calculator \<Rightarrow> calculator) \<Rightarrow> calculator \<Rightarrow> string \<Rightarrow> bool \<Rightarrow> calculator" where
  "log_other_interaction func class_instance event_text on_keyboard =
     func (class_instance\<lparr>printed := printed class_instance @
       [''The button '' @ [CHR 0x22] @ event_text @ [CHR 0x22] @
        (if on_keyboard then '' was clicked on the keyboard.''
         else '' was clicked in the pyqt gui.'')]\<rparr>)"

definition Calculator_remove_last_digit :: "calculator \<Rightarrow> string \<Rightarrow> bool \<Rightarrow> calculator" where
  "Calculator_remove_last_digit = log_other_interaction remove_last_digit"

subsection \<open>Notions of the specification\<close>

text \<open>
  A failure returned as a value has a kind; in Python such a value is an exception
  instance. \<open>failure_kind\<close> reads the kind of a value, \<open>returned\<close> the value of a result.
\<close>

fun failure_kind :: "pyval \<Rightarrow> exc_class option" where
  "failure_kind (VException k m) = Some k"
| "failure_kind v = None"

fun returned :: "'a result \<Rightarrow> 'a option" where
  "returned (Return v) = Some v"
| "returned r = None"

text \<open>
  The buffer after "delete last" as the specification words it: cut at the position of
  the last element that is a digit, that element and all after it removed.
\<close>

definition truncate_at_last_digit :: "string list \<Rightarrow> string list" where
  "truncate_at_last_digit buffer =
     (if list_ex isdigit buffer
      then rev (tl (dropWhile (\<lambda>element. \<not> isdigit element) (rev buffer)))
      else buffer)"

text \<open>
  Expressions of integer literals with unary \<^verbatim>\<open>+ -\<close> and binary \<^verbatim>\<open>+ - *\<close>, and the integer
  such an expression denotes.
\<close>

fun integer_arithmetic :: "expr \<Rightarrow> bool" where
  "integer_arithmetic (Num k) = True"
| "integer_arithmetic (UnaryOp u e) = integer_arithmetic e"
| "integer_arithmetic (BinOp l b r) = (b \<noteq> Div \<and> integer_arithmetic l \<and> integer_arithmetic r)"
| "integer_arithmetic e = False"

fun value_of :: "expr \<Rightarrow> int" where
  "value_of (Num k) = k"
| "value_of (UnaryOp UAdd e) = value_of e"
| "value_of (UnaryOp USub e) = - value_of e"
| "value_of (BinOp l Add r) = value_of l + value_of r"
| "value_of (BinOp l Sub r) = value_of l - value_of r"
| "value_of (BinOp l Mult r) = value_of l * value_of r"
| "value_of e = 0"

section \<open>Properties\<close>

subsection \<open>Auxiliary facts\<close>

lemma validate_names_None:
  "validate_names allowed names = None \<longleftrightarrow> list_all (contains allowed) names"
  by (induction names) simp_all

lemma validate_names_first:
  "find (\<lambda>n. \<not> contains allowed n) names = Some name \<Longrightarrow>
   validate_names allowed names =
     Some (Exc NameError (''The use of '' @ quoted name @ '' is not allowed''))"
  by (induction names) (auto split: if_splits)

lemma compile_co_names:
  "py_compile s = Compiled c \<Longrightarrow> co_names c = first_occurrences [] (names_of (co_code c))"
  by (auto simp: py_compile_def split: option.splits parse.splits if_splits)

lemma names_of_integer_arithmetic: "integer_arithmetic e \<Longrightarrow> names_of e = []"
  by (induction e) simp_all

lemma eval_integer_arithmetic:
  "integer_arithmetic e \<Longrightarrow> eval_expr globals e w = (Return (VInt (value_of e)), w)"
proof (induction e arbitrary: w)
  case (UnaryOp u e)
  then show ?case by (cases u) simp_all
next
  case (BinOp l b r)
  then show ?case by (cases b) simp_all
qed simp_all

lemma compile_empty: "py_compile [] = CompileSyntaxError ''invalid syntax''"
  by code_simp

lemma compile_quoted_ERROR:
  "py_compile (quoted ''ERROR'') = Compiled \<lparr>co_names = [], co_code = Str ''ERROR''\<rparr>"
  by code_simp

text \<open>What \<^verbatim>\<open>_remove_last_digit\<close> does to the buffer, for every buffer.\<close>

lemma index_takeWhile: "index xs x = Some i \<Longrightarrow> take i xs = takeWhile (\<lambda>y. y \<noteq> x) xs"
  by (induction xs arbitrary: i) (auto split: if_splits)

lemma index_member: "x \<in> set xs \<Longrightarrow> \<exists>i. index xs x = Some i"
  by (induction xs) auto

lemma remove_last_digit_loop_find:
  "set xs \<subseteq> set (current_input c) \<Longrightarrow>
   current_input (remove_last_digit_loop c xs) =
     (case find isdigit xs of
        None \<Rightarrow> current_input c
      | Some d \<Rightarrow> takeWhile (\<lambda>y. y \<noteq> d) (current_input c))"
proof (induction xs)
  case Nil
  then show ?case by simp
next
  case (Cons x xs)
  show ?case
  proof (cases "isdigit x")
    case True
    from Cons.prems have "x \<in> set (current_input c)" by simp
    then obtain i where "index (current_input c) x = Some i"
      using index_member by fastforce
    with True show ?thesis by (simp add: index_takeWhile)
  next
    case False
    with Cons show ?thesis by simp
  qed
qed

lemma remove_last_digit_cut:
  "current_input (remove_last_digit c) =
     (case find isdigit (rev (current_input c)) of
        None \<Rightarrow> current_input c
      | Some d \<Rightarrow> takeWhile (\<lambda>y. y \<noteq> d) (current_input c))"
  by (simp add: remove_last_digit_def remove_last_digit_loop_find)

text \<open>
  On a buffer without repeated key texts the method does what the specification says.
\<close>

lemma cut_agrees_when_distinct:
  assumes "distinct buffer"
  shows "(case find isdigit (rev buffer) of
            None \<Rightarrow> buffer
          | Some d \<Rightarrow> takeWhile (\<lambda>y. y \<noteq> d) buffer) = truncate_at_last_digit buffer"
proof (cases "list_ex isdigit buffer")
  case False
  then have "find isdigit (rev buffer) = None"
    by (simp add: find_None_iff list_ex_iff)
  with False show ?thesis
    by (simp add: truncate_at_last_digit_def)
next
  case True
  define ys where "ys = takeWhile (\<lambda>e. \<not> isdigit e) (rev buffer)"
  define r where "r = dropWhile (\<lambda>e. \<not> isdigit e) (rev buffer)"
  from True have "r \<noteq> []"
    by (auto simp: r_def list_ex_iff)
  then obtain d zs where r: "r = d # zs"
    by (cases r) auto
  have rb: "rev buffer = ys @ d # zs"
    unfolding ys_def using r [unfolded r_def]
    by (metis takeWhile_dropWhile_id)
  have f: "find isdigit (rev buffer) = Some d"
    using r by (simp add: find_dropWhile r_def comp_def)
  from rb have b: "buffer = rev zs @ d # rev ys"
    by (metis rev_rev_ident rev_append rev.simps(2) append.assoc append_Cons append_Nil)
  with assms have "d \<notin> set zs"
    by auto
  then have "takeWhile (\<lambda>y. y \<noteq> d) (rev zs @ d # rev ys) =
      rev zs @ takeWhile (\<lambda>y. y \<noteq> d) (d # rev ys)"
    by (intro takeWhile_append2) auto
  with b have "takeWhile (\<lambda>y. y \<noteq> d) buffer = rev zs"
    by simp
  with True f r show ?thesis
    by (simp add: truncate_at_last_digit_def r_def)
qed

lemma remove_last_digit_distinct:
  "distinct (current_input c) \<Longrightarrow>
   current_input (remove_last_digit c) = truncate_at_last_digit (current_input c)"
  by (simp add: remove_last_digit_cut cut_agrees_when_distinct)

text \<open>
  \<^verbatim>\<open>evaluate\<close> never changes which keys \<open>ALLOWED_NAMES\<close> has: the only instruction that
  stores into it is the assignment expression of the outer code, whose target is in
  \<^verbatim>\<open>co_names\<close> and has therefore been checked to be a key.
\<close>

lemma set_first_occurrences: "set (first_occurrences seen xs) = set seen \<union> set xs"
  by (induction xs arbitrary: seen) auto

lemma call_function_names:
  "ALLOWED_NAMES (snd (call_function globals f args w)) = ALLOWED_NAMES w"
  by (cases f) (auto split: prod.splits)

lemma eval_preserves_keys:
  "map fst (ALLOWED_NAMES w) = ks \<Longrightarrow> set (names_of e) \<subseteq> set ks \<Longrightarrow>
     map fst (ALLOWED_NAMES (snd (eval_expr globals e w))) = ks"
  "map fst (ALLOWED_NAMES w) = ks \<Longrightarrow> set (concat (map names_of es)) \<subseteq> set ks \<Longrightarrow>
     map fst (ALLOWED_NAMES (snd (eval_args globals es w))) = ks"
proof (induction globals e w and globals es w rule: eval_expr_eval_args.induct)
  case (3 globals x w)
  then show ?case by (simp add: record_event_def)
next
  case (5 globals u e w)
  then show ?case by (auto split: prod.splits result.splits)
next
  case (6 globals l b r w)
  then show ?case by (auto split: prod.splits result.splits)
next
  case (7 globals x v w)
  then show ?case
    by (auto simp: record_event_def update_keys split: prod.splits result.splits)
next
  case (8 globals f args w)
  then show ?case by (auto simp: call_function_names split: prod.splits result.splits)
next
  case (10 globals a as w)
  then show ?case by (auto split: prod.splits result.splits)
qed simp_all

lemma evaluate_preserves_keys:
  "map fst (ALLOWED_NAMES (snd (evaluate w s))) = map fst (ALLOWED_NAMES w)"
proof (cases "py_compile s")
  case (Compiled c)
  show ?thesis
  proof (cases "validate_names (ALLOWED_NAMES w) (co_names c)")
    case None
    then have "list_all (contains (ALLOWED_NAMES w)) (co_names c)"
      by (simp add: validate_names_None)
    then have "set (co_names c) \<subseteq> set (map fst (ALLOWED_NAMES w))"
      by (auto simp: list_all_iff contains_def)
    with Compiled have "set (names_of (co_code c)) \<subseteq> set (map fst (ALLOWED_NAMES w))"
      by (simp add: compile_co_names set_first_occurrences)
    moreover have "map fst (ALLOWED_NAMES (record_event EVAL w)) = map fst (ALLOWED_NAMES w)"
      by (simp add: record_event_def)
    ultimately have "map fst (ALLOWED_NAMES (snd (eval_expr [(''__builtins__'', VDict [])]
        (co_code c) (record_event EVAL w)))) = map fst (ALLOWED_NAMES w)"
      by (intro eval_preserves_keys(1))
    with Compiled None show ?thesis
      by (simp add: evaluate_def py_eval_def)
  next
    case (Some a)
    with Compiled show ?thesis by (simp add: evaluate_def)
  qed
qed (simp_all add: evaluate_def)

subsection \<open>The allow-list and the names an evaluation touches\<close>

text \<open>
  C1. The claim: \<^verbatim>\<open>evaluate\<close> never looks up a name outside the allow-list, and an
  expression that contains such a name executes nothing. The check reads the \<^verbatim>\<open>co_names\<close>
  of the outer code object only. For \<^verbatim>\<open>(lambda: __builtins__)()\<close> that tuple is empty, the
  check passes, \<^verbatim>\<open>eval\<close> runs, and the body of the lambda loads \<^verbatim>\<open>__builtins__\<close>, which is
  not a key of \<open>ALLOWED_NAMES\<close>, and returns the dictionary found under it.
\<close>

theorem evaluate_lambda_loads_unchecked_name:
  "evaluate initial_world ''(lambda: __builtins__)()'' =
     (Return (VDict []), initial_world\<lparr>trace := [EVAL, LOAD_GLOBAL ''__builtins__'']\<rparr>) \<and>
   \<not> contains (ALLOWED_NAMES initial_world) ''__builtins__''"
  by code_simp

text \<open>
  C2, as claimed: a name outside the allow-list makes \<^verbatim>\<open>evaluate\<close> return a failure value.
  It does not return: for \<^verbatim>\<open>foo\<close> the \<^verbatim>\<open>NameError\<close> is raised and leaves the function.
\<close>

theorem evaluate_foo_raises:
  "evaluate initial_world ''foo'' =
     (Raise (Exc NameError (''The use of '' @ quoted ''foo'' @ '' is not allowed'')),
      initial_world) \<and>
   returned (fst (evaluate initial_world ''foo'')) = None"
  by code_simp

text \<open>
  C2, amended: when the expression compiles and \<^verbatim>\<open>co_names\<close> has a name that is not a key
  of \<open>ALLOWED_NAMES\<close>, \<^verbatim>\<open>evaluate\<close> raises \<^verbatim>\<open>NameError\<close> with the message
  \<^verbatim>\<open>The use of '<name>' is not allowed\<close> for the first such name, and the world is as
  before the call: \<^verbatim>\<open>eval\<close> was not entered, nothing was stored or printed.
\<close>

theorem evaluate_disallowed_name_raises:
  assumes "py_compile s = Compiled c"
    and "find (\<lambda>n. \<not> contains (ALLOWED_NAMES w) n) (co_names c) = Some name"
  shows "evaluate w s =
     (Raise (Exc NameError (''The use of '' @ quoted name @ '' is not allowed'')), w)"
  using assms by (simp add: evaluate_def validate_names_first)

text \<open>C2, an instance: \<^verbatim>\<open>open('x')\<close>.\<close>

theorem evaluate_disallowed_name_raises_witness:
  "py_compile (''open('' @ quoted ''x'' @ '')'') =
     Compiled \<lparr>co_names = [''open''], co_code = Call (Name ''open'') [Str ''x'']\<rparr> \<and>
   find (\<lambda>n. \<not> contains (ALLOWED_NAMES initial_world) n) [''open''] = Some ''open'' \<and>
   evaluate initial_world (''open('' @ quoted ''x'' @ '')'') =
     (Raise (Exc NameError (''The use of '' @ quoted ''open'' @ '' is not allowed'')),
      initial_world)"
proof -
  have a: "py_compile (''open('' @ quoted ''x'' @ '')'') =
      Compiled \<lparr>co_names = [''open''], co_code = Call (Name ''open'') [Str ''x'']\<rparr>"
    by code_simp
  have b: "find (\<lambda>n. \<not> contains (ALLOWED_NAMES initial_world) n) [''open''] = Some ''open''"
    by code_simp
  from b have b': "find (\<lambda>n. \<not> contains (ALLOWED_NAMES initial_world) n)
      (co_names \<lparr>co_names = [''open''], co_code = Call (Name ''open'') [Str ''x'']\<rparr>)
        = Some ''open''"
    by simp
  from a b evaluate_disallowed_name_raises [OF a b'] show ?thesis by simp
qed

subsection \<open>Faults of the evaluation\<close>

text \<open>
  C3, as claimed: a fault at evaluation time is caught and returned as a failure value.
  \<^verbatim>\<open>evaluate("1/0")\<close> returns nothing: \<^verbatim>\<open>eval\<close> is entered and its \<^verbatim>\<open>ZeroDivisionError\<close>
  leaves \<^verbatim>\<open>evaluate\<close>.
\<close>

theorem evaluate_division_by_zero_raises:
  "evaluate initial_world ''1/0'' =
     (Raise (Exc ZeroDivisionError ''division by zero''), initial_world\<lparr>trace := [EVAL]\<rparr>) \<and>
   returned (fst (evaluate initial_world ''1/0'')) = None"
  by code_simp

text \<open>
  C3, amended: when the expression compiles and every name of \<^verbatim>\<open>co_names\<close> is a key of
  \<open>ALLOWED_NAMES\<close>, an exception that \<^verbatim>\<open>eval\<close> raises is the outcome of \<^verbatim>\<open>evaluate\<close>: it
  propagates to the caller, with the world \<^verbatim>\<open>eval\<close> left.
\<close>

theorem evaluate_propagates_eval_fault:
  assumes "py_compile s = Compiled c"
    and "list_all (contains (ALLOWED_NAMES w)) (co_names c)"
    and "py_eval c [(''__builtins__'', VDict [])] w = (Raise x, w')"
  shows "evaluate w s = (Raise x, w') \<and> returned (fst (evaluate w s)) = None"
  using assms by (simp add: evaluate_def validate_names_None [symmetric])

text \<open>C3, an instance: the domain error of \<^verbatim>\<open>sqrt(-1)\<close>.\<close>

theorem evaluate_propagates_eval_fault_witness:
  "py_compile ''sqrt(-1)'' =
     Compiled \<lparr>co_names = [''sqrt''],
               co_code = Call (Name ''sqrt'') [UnaryOp USub (Num 1)]\<rparr> \<and>
   list_all (contains (ALLOWED_NAMES initial_world)) [''sqrt''] \<and>
   evaluate initial_world ''sqrt(-1)'' =
     (Raise (Exc ValueError ''math domain error''),
      initial_world\<lparr>trace := [EVAL, LOAD_NAME ''sqrt'']\<rparr>)"
proof -
  let ?c = "\<lparr>co_names = [''sqrt''], co_code = Call (Name ''sqrt'') [UnaryOp USub (Num 1)]\<rparr>"
  have a: "py_compile ''sqrt(-1)'' = Compiled ?c"
    by code_simp
  have b: "list_all (contains (ALLOWED_NAMES initial_world)) [''sqrt'']"
    by code_simp
  then have b': "list_all (contains (ALLOWED_NAMES initial_world)) (co_names ?c)"
    by simp
  have c: "py_eval ?c [(''__builtins__'', VDict [])] initial_world =
      (Raise (Exc ValueError ''math domain error''),
       initial_world\<lparr>trace := [EVAL, LOAD_NAME ''sqrt'']\<rparr>)"
    by code_simp
  from a b evaluate_propagates_eval_fault [OF a b' c] show ?thesis by simp
qed

text \<open>
  Division by zero in general: a quotient of two integer expressions whose divisor
  denotes zero raises \<^verbatim>\<open>ZeroDivisionError\<close>, in every world.
\<close>

lemma evaluate_zero_divisor:
  assumes "py_compile s = Compiled c"
    and "co_code c = BinOp l Div r"
    and "integer_arithmetic l" and "integer_arithmetic r" and "value_of r = 0"
  shows "fst (evaluate w s) = Raise (Exc ZeroDivisionError ''division by zero'')"
proof -
  from assms have "names_of (co_code c) = []"
    by (simp add: names_of_integer_arithmetic)
  with assms(1) have "co_names c = []"
    by (simp add: compile_co_names)
  with assms show ?thesis
    by (simp add: evaluate_def py_eval_def eval_integer_arithmetic)
qed

subsection \<open>Syntax errors\<close>

text \<open>
  C4, as claimed: a string that does not parse makes \<^verbatim>\<open>evaluate\<close> return a failure value of
  kind \<^verbatim>\<open>SyntaxError\<close>. For \<^verbatim>\<open>2 +\<close> it returns the string \<^verbatim>\<open>ERROR\<close>, which carries no kind.
\<close>

theorem evaluate_incomplete_sum_returns_str:
  "fst (evaluate initial_world ''2 +'') = Return (VStr ''ERROR'') \<and>
   failure_kind (VStr ''ERROR'') \<noteq> Some SyntaxError"
  by code_simp

text \<open>
  C4, amended: when \<^verbatim>\<open>compile\<close> raises \<^verbatim>\<open>SyntaxError\<close>, \<^verbatim>\<open>evaluate\<close> does not raise: it prints
  one message with the diagnostic and returns the string \<^verbatim>\<open>ERROR\<close>; \<open>ALLOWED_NAMES\<close> and
  the trace are as before, so nothing was evaluated.
\<close>

theorem evaluate_syntax_error_returns_ERROR:
  "py_compile s = CompileSyntaxError e \<Longrightarrow>
   evaluate w s =
     (Return (VStr ''ERROR''), w\<lparr>stdout := stdout w @ [syntax_error_message e]\<rparr>)"
  by (simp add: evaluate_def)

text \<open>C4, an instance: an unclosed parenthesis.\<close>

theorem evaluate_syntax_error_returns_ERROR_witness:
  "\<exists>e. py_compile ''(1 + 2'' = CompileSyntaxError e \<and>
       evaluate initial_world ''(1 + 2'' =
         (Return (VStr ''ERROR''), initial_world\<lparr>stdout := [syntax_error_message e]\<rparr>)"
proof -
  have a: "py_compile ''(1 + 2'' = CompileSyntaxError ''invalid syntax''"
    by code_simp
  have "stdout initial_world = []"
    by (simp add: initial_world_def)
  with a evaluate_syntax_error_returns_ERROR [OF a, of initial_world] show ?thesis by simp
qed

text \<open>
  C10. For every string whose compilation raises \<^verbatim>\<open>SyntaxError\<close>, what \<^verbatim>\<open>evaluate\<close> returns is
  the string \<^verbatim>\<open>ERROR\<close>. The value has no kind, and it is the value a successful evaluation
  returns as well: that of the expression \<^verbatim>\<open>'ERROR'\<close>.
\<close>

theorem evaluate_syntax_error_plain_string:
  "py_compile s = CompileSyntaxError e \<Longrightarrow>
   returned (fst (evaluate w s)) = Some (VStr ''ERROR'') \<and>
   failure_kind (VStr ''ERROR'') = None \<and>
   fst (evaluate w (quoted ''ERROR'')) = fst (evaluate w s)"
  by (simp add: evaluate_def compile_quoted_ERROR py_eval_def)

text \<open>C10, an instance: \<^verbatim>\<open>2 +\<close>.\<close>

theorem evaluate_syntax_error_plain_string_witness:
  "(\<exists>e. py_compile ''2 +'' = CompileSyntaxError e) \<and>
   returned (fst (evaluate initial_world ''2 +'')) = Some (VStr ''ERROR'') \<and>
   fst (evaluate initial_world (quoted ''ERROR'')) = fst (evaluate initial_world ''2 +'')"
proof -
  have a: "py_compile ''2 +'' = CompileSyntaxError ''invalid syntax''"
    by code_simp
  from a evaluate_syntax_error_plain_string [OF a, of initial_world] show ?thesis by simp
qed

text \<open>
  C7, as claimed: \<^verbatim>\<open>evaluate("")\<close> returns a designated failure value, an empty-input or a
  syntax failure. What it returns is the string \<^verbatim>\<open>ERROR\<close>: a value without a kind, and the
  value the successful evaluation of \<^verbatim>\<open>'ERROR'\<close> returns too.
\<close>

theorem evaluate_empty_string_returns_str:
  "fst (evaluate initial_world []) = Return (VStr ''ERROR'') \<and>
   failure_kind (VStr ''ERROR'') = None \<and>
   fst (evaluate initial_world (quoted ''ERROR'')) = fst (evaluate initial_world [])"
  by code_simp

text \<open>
  C7, amended: \<^verbatim>\<open>evaluate("")\<close> does not raise, in any world: compiling the empty string
  raises \<^verbatim>\<open>SyntaxError\<close>, and the call prints one message with the diagnostic and returns
  the plain string \<^verbatim>\<open>ERROR\<close>, which carries no kind; \<open>ALLOWED_NAMES\<close> and the trace are as
  before the call.
\<close>

theorem evaluate_empty_string:
  "\<exists>e. py_compile [] = CompileSyntaxError e \<and>
       evaluate w [] =
         (Return (VStr ''ERROR''), w\<lparr>stdout := stdout w @ [syntax_error_message e]\<rparr>) \<and>
       failure_kind (VStr ''ERROR'') = None"
  by (simp add: evaluate_def compile_empty)

subsection \<open>Arithmetic\<close>

text \<open>
  The two evaluations the specification gives as examples of arithmetic: \<^verbatim>\<open>2 + 3 * 4\<close> is
  the integer 14 and \<^verbatim>\<open>sqrt(16)\<close> the float 4.0. Results that are floats in general need the
  arithmetic of doubles, which is not part of this development.
\<close>

lemma evaluate_sum_and_root:
  "fst (evaluate initial_world ''2 + 3 * 4'') = Return (VInt 14) \<and>
   fst (evaluate initial_world ''sqrt(16)'') = Return (VFloat 4)"
  by code_simp

subsection \<open>The input buffer\<close>

text \<open>
  C6. The claim: "delete last" cuts the buffer at the position of the last digit. After
  the keys \<^verbatim>\<open>1\<close>, \<^verbatim>\<open>+\<close>, \<^verbatim>\<open>1\<close> on an empty buffer that position is 2 and the buffer should
  become \<^verbatim>\<open>1\<close>, \<^verbatim>\<open>+\<close>. The method finds the last digit and then asks \<^verbatim>\<open>index\<close> for the first
  element equal to it, which is at position 0: the buffer and the input field become
  empty. (\<open>remove_last_digit_cut\<close> is what the method does in general, and
  \<open>remove_last_digit_distinct\<close> says where it agrees with the claim.)
\<close>

theorem remove_last_digit_cuts_at_first_equal_key:
  "current_input (update_input_field (update_input_field (update_input_field
      (c\<lparr>current_input := []\<rparr>) ''1'') ''+'') ''1'') = [''1'', ''+'', ''1''] \<and>
   current_input (Calculator_remove_last_digit
      (update_input_field (update_input_field (update_input_field
        (c\<lparr>current_input := []\<rparr>) ''1'') ''+'') ''1'') event_text on_keyboard) = [] \<and>
   input_field (Calculator_remove_last_digit
      (update_input_field (update_input_field (update_input_field
        (c\<lparr>current_input := []\<rparr>) ''1'') ''+'') ''1'') event_text on_keyboard) = [] \<and>
   truncate_at_last_digit [''1'', ''+'', ''1''] = [''1'', ''+'']"
  by (simp add: Calculator_remove_last_digit_def log_other_interaction_def
      update_input_field_def remove_last_digit_def isdigit_def is_digit_def
      truncate_at_last_digit_def)

subsection \<open>The allow-list\<close>

text \<open>
  C8. Whatever the module dictionary holds, no key of the dictionary the class body
  builds from it starts with two underscores; so it is for \<open>ALLOWED_NAMES\<close> at the start,
  which has the sixty public names of \<^verbatim>\<open>math\<close>. (By \<open>evaluate_preserves_keys\<close> the keys
  stay what they are at the start.)
\<close>

theorem ALLOWED_NAMES_no_reserved_prefix:
  "list_all (\<lambda>(k, v). \<not> startswith k ''__'') (ALLOWED_NAMES_init module_dict) \<and>
   list_all (\<lambda>(k, v). \<not> startswith k ''__'') (ALLOWED_NAMES initial_world) \<and>
   length (ALLOWED_NAMES initial_world) = 60"
proof (intro conjI)
  show "list_all (\<lambda>(k, v). \<not> startswith k ''__'') (ALLOWED_NAMES_init module_dict)"
    by (simp add: ALLOWED_NAMES_init_def list_all_iff)
next
  show "list_all (\<lambda>(k, v). \<not> startswith k ''__'') (ALLOWED_NAMES initial_world)"
    by (simp add: initial_world_def ALLOWED_NAMES_init_def list_all_iff)
next
  show "length (ALLOWED_NAMES initial_world) = 60"
    by code_simp
qed

subsection \<open>Two calls with the same input\<close>

text \<open>
  C9. The claim: two calls of \<^verbatim>\<open>evaluate\<close> with the same input give the same result. The
  local namespace of \<^verbatim>\<open>eval\<close> is the dictionary \<open>ALLOWED_NAMES\<close> itself, and an assignment
  expression whose target is an allowed name passes the check and stores into it. The
  first call of \<^verbatim>\<open>(gcd := gcd(4, 6))\<close> returns 2 and leaves \<^verbatim>\<open>gcd\<close> bound to 2; the second
  call, in the world the first one left, raises \<^verbatim>\<open>TypeError\<close>.
\<close>

theorem evaluate_rebinds_allowed_name:
  "fst (evaluate initial_world ''(gcd := gcd(4, 6))'') = Return (VInt 2) \<and>
   map_of (ALLOWED_NAMES (snd (evaluate initial_world ''(gcd := gcd(4, 6))''))) ''gcd'' =
     Some (VInt 2) \<and>
   fst (evaluate (snd (evaluate initial_world ''(gcd := gcd(4, 6))''))
          ''(gcd := gcd(4, 6))'') =
     Raise (Exc TypeError (quoted ''int'' @ '' object is not callable''))"
  by code_simp

end
